theory Spec2Isabelle
  imports Complex_Main "HOL-Library.Word"
begin

section \<open>JavaScript values, errors and coercions\<close>

text \<open>
  The frontend exchanges JSON with the Flask backend. A parsed JSON document is a
  \<open>json\<close> value; a JavaScript value that may also be \<open>undefined\<close> is a
  \<open>json option\<close>, with \<open>None\<close> for \<open>undefined\<close>. No function below computes with a
  number taken from a document: it only tests the number for zero and prints it. A
  number is therefore kept as the text that \<open>String\<close> gives for it, such as \<open>42\<close>,
  \<open>0.5\<close> or \<open>1e+21\<close>, and \<open>0\<close> for both zeros. An object keeps its members in document
  order; a repeated key reads as its last occurrence, as \<open>JSON.parse\<close> does.
\<close>

datatype json =
    JNull
  | JBool bool
  | JNum string
  | JStr string
  | JArr "json list"
  | JObj "(string \<times> json) list"

type_synonym jsval = "json option"

text \<open>
  A thrown value, with its \<open>message\<close>. \<open>Error\<close> is what \<open>throw new Error(msg)\<close> throws;
  \<open>TypeError\<close> and \<open>SyntaxError\<close> are thrown by the runtime: a property read on
  \<open>null\<close>, a call of something that is not a function and a rejected \<open>fetch\<close> are
  \<open>TypeError\<close>s, a body that is not JSON is a \<open>SyntaxError\<close>.
\<close>

datatype js_error = Error string | TypeError string | SyntaxError string

fun message :: "js_error \<Rightarrow> string" where
  "message (Error m) = m"
| "message (TypeError m) = m"
| "message (SyntaxError m) = m"

text \<open>Truthiness, as \<open>!x\<close> and \<open>x || y\<close> test it.\<close>

fun js_truthy :: "jsval \<Rightarrow> bool" where
  "js_truthy None = False"
| "js_truthy (Some JNull) = False"
| "js_truthy (Some (JBool b)) = b"
| "js_truthy (Some (JNum n)) = (n \<noteq> ''0'')"
| "js_truthy (Some (JStr s)) = (s \<noteq> [])"
| "js_truthy (Some (JArr xs)) = True"
| "js_truthy (Some (JObj kvs)) = True"

text \<open>
  \<open>obj.name\<close> for a property name that no prototype defines (\<open>success\<close>, \<open>error\<close>,
  \<open>brand_data\<close>, \<open>calendar\<close>, \<open>colors\<close>): a \<open>TypeError\<close> on \<open>null\<close>, the member of an
  object, \<open>undefined\<close> on every other value.
\<close>

definition null_property_error :: js_error where
  "null_property_error = TypeError ''Cannot read properties of null''"

fun js_get :: "json \<Rightarrow> string \<Rightarrow> js_error + jsval" where
  "js_get JNull name = Inl null_property_error"
| "js_get (JObj kvs) name = Inr (map_of (rev kvs) name)"
| "js_get v name = Inr None"

text \<open>Decimal digits of a natural number, as a template literal prints a status code.\<close>

fun string_of_nat :: "nat \<Rightarrow> string" where
  "string_of_nat n =
     (if n < 10 then [''0123456789'' ! n]
      else string_of_nat (n div 10) @ [''0123456789'' ! (n mod 10)])"

declare string_of_nat.simps [simp del]

fun join_with :: "string \<Rightarrow> string list \<Rightarrow> string" where
  "join_with sep [] = []"
| "join_with sep [x] = x"
| "join_with sep (x # y # ys) = x @ sep @ join_with sep (y # ys)"

text \<open>
  \<open>String(v)\<close> for a parsed JSON value, which is how \<open>new Error(v)\<close> turns its argument
  into the message. An array joins its elements with commas, printing \<open>null\<close> as the
  empty string. An object prints as \<open>[object Object]\<close>, unless it has a member named
  \<open>toString\<close>: that member hides the inherited method and is not a function, so the
  conversion throws a \<open>TypeError\<close>, also when the object is an element of an array that
  is printed. \<open>convertible\<close> tells whether the conversion succeeds, and \<open>js_String\<close> is
  its result when it does.
\<close>

fun convertible :: "json \<Rightarrow> bool" where
  "convertible (JObj kvs) = (map_of kvs ''toString'' = None)"
| "convertible (JArr xs) = (\<forall>x \<in> set xs. convertible x)"
| "convertible v = True"

fun js_String :: "json \<Rightarrow> string" where
  "js_String JNull = ''null''"
| "js_String (JBool b) = (if b then ''true'' else ''false'')"
| "js_String (JNum n) = n"
| "js_String (JStr s) = s"
| "js_String (JArr xs) = join_with '','' (map (\<lambda>x. if x = JNull then [] else js_String x) xs)"
| "js_String (JObj kvs) = ''[object Object]''"

definition conversion_error :: js_error where
  "conversion_error = TypeError ''Cannot convert object to primitive value''"

section \<open>The API service (\<open>services/api.js\<close>)\<close>

text \<open>
  \<open>fetch\<close> is the only effect. The network is a record of the requests sent so far;
  the backend and the transport are a function from the request to what the promise
  settles with: \<open>Inl m\<close> when \<open>fetch\<close> rejects (a \<open>TypeError\<close> with message \<open>m\<close>), or a
  response with its \<open>ok\<close> flag, its status (an unsigned 16-bit number) and what
  \<open>response.json()\<close> settles with (\<open>Inl m\<close> when the body is not JSON: a \<open>SyntaxError\<close>
  with message \<open>m\<close>). The body of a request is the value handed to \<open>JSON.stringify\<close>.
\<close>

record request =
  req_url :: string
  req_method :: string
  req_headers :: "(string \<times> string) list"
  req_body :: json

record response =
  ok :: bool
  status :: "16 word"
  json_body :: "string + json"

type_synonym backend = "request \<Rightarrow> string + response"

record net =
  sent :: "request list"

definition fetch :: "backend \<Rightarrow> request \<Rightarrow> net \<Rightarrow> (js_error + response) \<times> net" where
  "fetch srv req n =
     (case srv req of Inl m \<Rightarrow> Inl (TypeError m) | Inr r \<Rightarrow> Inr r, n\<lparr>sent := sent n @ [req]\<rparr>)"

definition response_json :: "response \<Rightarrow> js_error + json" where
  "response_json r = (case json_body r of Inl m \<Rightarrow> Inl (SyntaxError m) | Inr d \<Rightarrow> Inr d)"

definition API_BASE_URL :: string where
  "API_BASE_URL = ''http://localhost:5001''"

text \<open>
  \<open>JSON.stringify\<close> of an object literal leaves out every property whose value is
  \<open>undefined\<close>.
\<close>

fun stringify_fields :: "(string \<times> jsval) list \<Rightarrow> (string \<times> json) list" where
  "stringify_fields [] = []"
| "stringify_fields ((k, None) # fs) = stringify_fields fs"
| "stringify_fields ((k, Some v) # fs) = (k, v) # stringify_fields fs"

definition post_json :: "string \<Rightarrow> (string \<times> jsval) list \<Rightarrow> request" where
  "post_json path props =
     \<lparr> req_url = API_BASE_URL @ path,
       req_method = ''POST'',
       req_headers = [(''Content-Type'', ''application/json'')],
       req_body = JObj (stringify_fields props) \<rparr>"

text \<open>
  What \<open>throw new Error(v || fallback)\<close> throws: an \<open>Error\<close> whose message is the
  fallback when \<open>v\<close> is falsy and \<open>String(v)\<close> otherwise, or the \<open>TypeError\<close> of the
  conversion when \<open>v\<close> cannot be converted.
\<close>

definition new_Error :: "jsval \<Rightarrow> string \<Rightarrow> js_error" where
  "new_Error v fallback =
     (case v of
        None \<Rightarrow> Error fallback
      | Some j \<Rightarrow>
          if \<not> js_truthy (Some j) then Error fallback
          else if convertible j then Error (js_String j)
          else conversion_error)"

text \<open>
  The part that \<open>analyzeBrand\<close>, \<open>generateCalendar\<close> and \<open>generateContent\<close> repeat word
  for word but for the last message, from the settled \<open>fetch\<close> to the parsed body of a
  successful answer:
  \<^verbatim>\<open>
    if (!response.ok) {
        const errorData = await response.json().catch(() => ({}));
        throw new Error(errorData.error || `API request failed with status ${response.status}`);
    }
    const data = await response.json();
    if (!data.success) {
        throw new Error(data.error || failed);
    }
  \<close>
\<close>

definition checked_body :: "string \<Rightarrow> js_error + response \<Rightarrow> js_error + json" where
  "checked_body failed settled =
     (case settled of
        Inl e \<Rightarrow> Inl e
      | Inr r \<Rightarrow>
          if \<not> ok r then
            (let errorData = (case response_json r of Inl e \<Rightarrow> JObj [] | Inr d \<Rightarrow> d) in
             case js_get errorData ''error'' of
               Inl e \<Rightarrow> Inl e
             | Inr err \<Rightarrow>
                 Inl (new_Error err
                   (''API request failed with status '' @ string_of_nat (unat (status r)))))
          else
            (case response_json r of
               Inl e \<Rightarrow> Inl e
             | Inr data \<Rightarrow>
                 (case js_get data ''success'' of
                    Inl e \<Rightarrow> Inl e
                  | Inr success \<Rightarrow>
                      if \<not> js_truthy success then
                        (case js_get data ''error'' of
                           Inl e \<Rightarrow> Inl e
                         | Inr err \<Rightarrow> Inl (new_Error err failed))
                      else Inr data)))"

definition analyzeBrand_request :: "string \<Rightarrow> request" where
  "analyzeBrand_request brandUrl =
     post_json ''/brand/analyze''
       [(''source'', Some (JStr ''url'')), (''url'', Some (JStr brandUrl))]"

definition analyzeBrand :: "backend \<Rightarrow> string \<Rightarrow> net \<Rightarrow> (js_error + jsval) \<times> net" where
  "analyzeBrand srv brandUrl n =
     (let (settled, n') = fetch srv (analyzeBrand_request brandUrl) n in
      (case checked_body ''Brand analysis failed'' settled of
         Inl e \<Rightarrow> Inl e
       | Inr data \<Rightarrow> js_get data ''brand_data'',
       n'))"

text \<open>The default parameter \<open>tone = 'professional'\<close> applies when the argument is \<open>undefined\<close>.\<close>

definition tone_or_default :: "jsval \<Rightarrow> jsval" where
  "tone_or_default tone = (case tone of None \<Rightarrow> Some (JStr ''professional'') | Some t \<Rightarrow> Some t)"

definition generateCalendar_request :: "jsval \<Rightarrow> jsval \<Rightarrow> request" where
  "generateCalendar_request brand tone =
     post_json ''/calendar/generate''
       [(''brand_data'', brand), (''tone'', tone_or_default tone)]"

definition generateCalendar :: "backend \<Rightarrow> jsval \<Rightarrow> jsval \<Rightarrow> net \<Rightarrow> (js_error + jsval) \<times> net" where
  "generateCalendar srv brand tone n =
     (let (settled, n') = fetch srv (generateCalendar_request brand tone) n in
      (case checked_body ''Calendar generation failed'' settled of
         Inl e \<Rightarrow> Inl e
       | Inr data \<Rightarrow> js_get data ''calendar'',
       n'))"

text \<open>
  The member \<open>name\<close> of a response's parsed body, \<open>undefined\<close> where the body is not a
  JSON object. It serves to state what the functions above return.
\<close>

definition body_field :: "response \<Rightarrow> string \<Rightarrow> jsval" where
  "body_field r name =
     (case json_body r of Inr (JObj kvs) \<Rightarrow> map_of (rev kvs) name | _ \<Rightarrow> None)"

section \<open>The brand context (\<open>context/BrandContext.jsx\<close>)\<close>

text \<open>
  The provider's React state. \<open>error\<close> holds \<open>null\<close> (\<open>None\<close>) or a message. The state
  after an operation is the state once all of its setters have been applied.
\<close>

record content_settings =
  platforms :: "string list"
  frequency :: string

record brand_state =
  url :: string
  brandData :: jsval
  contentSettings :: content_settings
  generatedPosts :: jsval
  loading :: bool
  error :: "string option"

text \<open>\<open>err.message || fallback\<close>\<close>

definition message_or :: "js_error \<Rightarrow> string \<Rightarrow> string" where
  "message_or err fallback = (if message err = [] then fallback else message err)"

text \<open>
  \<^verbatim>\<open>
    const analyzeBrand = useCallback(async (brandUrl) => {
        setLoading(true);
        setError(null);
        try {
            const data = await analyzeBrandAPI(brandUrl);
            setBrandData(data);
            return data;
        } catch (err) {
            setError(err.message || 'Failed to analyze brand');
            throw err;
        } finally {
            setLoading(false);
        }
    }, []);
  \<close>
  The imported \<open>analyzeBrandAPI\<close> is the first argument.
\<close>

definition BrandProvider_analyzeBrand ::
  "(string \<Rightarrow> net \<Rightarrow> (js_error + jsval) \<times> net) \<Rightarrow> string \<Rightarrow> brand_state \<Rightarrow> net
     \<Rightarrow> (js_error + jsval) \<times> brand_state \<times> net" where
  "BrandProvider_analyzeBrand analyzeBrandAPI brandUrl st n =
     (let st1 = st\<lparr>loading := True, error := None\<rparr>;
          (settled, n') = analyzeBrandAPI brandUrl n
      in case settled of
           Inr data \<Rightarrow> (Inr data, st1\<lparr>brandData := data, loading := False\<rparr>, n')
         | Inl err \<Rightarrow>
             (Inl err,
              st1\<lparr>error := Some (message_or err ''Failed to analyze brand''), loading := False\<rparr>,
              n'))"

definition clearBrandData :: "brand_state \<Rightarrow> brand_state" where
  "clearBrandData st =
     st\<lparr>url := [], brandData := Some JNull,
        contentSettings := \<lparr>platforms = [], frequency = ''3/week''\<rparr>,
        generatedPosts := Some (JArr []), error := None\<rparr>"

section \<open>The persona page (\<open>components/BrandPersona.jsx\<close>)\<close>

text \<open>
  A JavaScript string is a list of characters, here the code units up to \<open>U+00FF\<close>.
  \<open>brandData?.name\<close> is \<open>undefined\<close> when \<open>brandData\<close> is \<open>null\<close> or \<open>undefined\<close>, and
  also when \<open>brandData\<close> is not an object.
\<close>

definition optional_get :: "jsval \<Rightarrow> string \<Rightarrow> jsval" where
  "optional_get v name =
     (case v of
        Some (JObj kvs) \<Rightarrow> map_of (rev kvs) name
      | _ \<Rightarrow> None)"

text \<open>\<open>Array.isArray(color) ? color[0] : color\<close>; \<open>color[0]\<close> of an empty array is \<open>undefined\<close>.\<close>

fun hex_of :: "json \<Rightarrow> jsval" where
  "hex_of (JArr []) = None"
| "hex_of (JArr (x # xs)) = Some x"
| "hex_of color = Some color"

definition fallback_colors :: "jsval list" where
  "fallback_colors = [Some (JStr ''#111111''), Some (JStr ''#00c237''), Some (JStr ''#f9f9f9'')]"

text \<open>
  \<^verbatim>\<open>
    const colors = brandData?.colors || [];
    const processedColors = colors.slice(0, 5).map((color, i) => {
        const hex = Array.isArray(color) ? color[0] : color;
        return hex;
    });
    const displayColors = processedColors.length > 0
        ? processedColors
        : ['#111111', '#00c237', '#f9f9f9'];
  \<close>
  A truthy \<open>colors\<close> that is not an array has no \<open>slice\<close> to call, or, for a string, a
  \<open>slice\<close> whose result has no \<open>map\<close>: both are \<open>TypeError\<close>s.
\<close>

definition displayColors :: "jsval \<Rightarrow> js_error + jsval list" where
  "displayColors brand =
     (let colors = (if js_truthy (optional_get brand ''colors'')
                    then optional_get brand ''colors'' else Some (JArr []))
      in case colors of
           Some (JArr cs) \<Rightarrow>
             (let processedColors = map hex_of (take 5 cs)
              in Inr (if length processedColors > 0 then processedColors else fallback_colors))
         | Some (JStr s) \<Rightarrow> Inl (TypeError ''colors.slice(...).map is not a function'')
         | _ \<Rightarrow> Inl (TypeError ''colors.slice is not a function''))"

text \<open>
  \<open>parseInt(s, 16)\<close>: leading white space is skipped, then a sign, then \<open>0x\<close> or \<open>0X\<close>;
  the digits that follow, up to the first character that is not a hexadecimal digit,
  are the number. With no digit the result is \<open>NaN\<close> (\<open>None\<close>).
\<close>

definition js_whitespace :: "char \<Rightarrow> bool" where
  "js_whitespace c \<longleftrightarrow> c \<in> set [CHR 0x09, CHR 0x0A, CHR 0x0B, CHR 0x0C, CHR 0x0D, CHR 0x20, CHR 0xA0]"

definition digit16 :: "char \<Rightarrow> nat option" where
  "digit16 c =
     (let n = (of_char c :: nat) in
      if 48 \<le> n \<and> n \<le> 57 then Some (n - 48)
      else if 97 \<le> n \<and> n \<le> 102 then Some (n - 87)
      else if 65 \<le> n \<and> n \<le> 70 then Some (n - 55)
      else None)"

fun digits16 :: "nat \<Rightarrow> string \<Rightarrow> nat" where
  "digits16 acc [] = acc"
| "digits16 acc (c # cs) =
     (case digit16 c of None \<Rightarrow> acc | Some d \<Rightarrow> digits16 (16 * acc + d) cs)"

definition parseInt16 :: "string \<Rightarrow> int option" where
  "parseInt16 s =
     (let t = dropWhile js_whitespace s;
          negative = (t \<noteq> [] \<and> hd t = CHR ''-'');
          u = (if t \<noteq> [] \<and> (hd t = CHR ''-'' \<or> hd t = CHR ''+'') then tl t else t);
          v = (if take 2 u = ''0x'' \<or> take 2 u = ''0X'' then drop 2 u else u)
      in case v of
           [] \<Rightarrow> None
         | c # cs \<Rightarrow>
             (case digit16 c of
                None \<Rightarrow> None
              | Some d \<Rightarrow> Some (if negative then - int (digits16 0 v) else int (digits16 0 v))))"

text \<open>\<open>s.substr(start, n)\<close> for \<open>start\<close> and \<open>n\<close> that are not negative.\<close>

definition substr :: "string \<Rightarrow> nat \<Rightarrow> nat \<Rightarrow> string" where
  "substr s start n = take n (drop start s)"

text \<open>
  \<^verbatim>\<open>
    function isLightColor(hex) {
        if (!hex) return true;
        const color = hex.replace('#', '');
        const r = parseInt(color.substr(0, 2), 16);
        const g = parseInt(color.substr(2, 2), 16);
        const b = parseInt(color.substr(4, 2), 16);
        const brightness = (r * 299 + g * 587 + b * 114) / 1000;
        return brightness > 155;
    }
  \<close>
  \<open>replace('#', '')\<close> removes the first \<open>#\<close>. The three components are integers, or
  \<open>NaN\<close>, which makes the comparison false. The sum is an integer below \<open>2^53\<close> and so
  exact; the quotient is taken in the rationals: rounding it to a double is monotone
  and \<open>155\<close> is a double, so the rounded quotient is above \<open>155\<close> exactly when the
  rational one is. A truthy value that is not a string has no \<open>replace\<close> to call.
\<close>

definition brightness :: "int \<Rightarrow> int \<Rightarrow> int \<Rightarrow> rat" where
  "brightness r g b = of_int (r * 299 + g * 587 + b * 114) / 1000"

definition isLightColor :: "jsval \<Rightarrow> js_error + bool" where
  "isLightColor hex =
     (if \<not> js_truthy hex then Inr True
      else case hex of
             Some (JStr s) \<Rightarrow>
               (let color = remove1 (CHR ''#'') s;
                    r = parseInt16 (substr color 0 2);
                    g = parseInt16 (substr color 2 2);
                    b = parseInt16 (substr color 4 2)
                in case (r, g, b) of
                     (Some r', Some g', Some b') \<Rightarrow> Inr (brightness r' g' b' > 155)
                   | _ \<Rightarrow> Inr False)
           | _ \<Rightarrow> Inl (TypeError ''hex.replace is not a function''))"

text \<open>
  The colour card of the page is built by
  \<^verbatim>\<open>
    displayColors.map((color, index) => (
        <div key={index} className="color-swatch"
             style={{ backgroundColor: color,
                      color: isLightColor(color) ? '#333' : '#fff',
                      border: isLightColor(color) ? '1px solid #eee' : 'none' }}
             onClick={() => copyToClipboard(color)}>
            <span>{color}</span>
        </div>))
  \<close>
  so building a swatch calls \<open>isLightColor\<close> on its colour, and a colour on which that
  throws stops the page.
\<close>

fun swatch_styles :: "jsval list \<Rightarrow> js_error + bool list" where
  "swatch_styles [] = Inr []"
| "swatch_styles (color # rest) =
     (case isLightColor color of
        Inl e \<Rightarrow> Inl e
      | Inr light \<Rightarrow>
          (case swatch_styles rest of
             Inl e \<Rightarrow> Inl e
           | Inr lights \<Rightarrow> Inr (light # lights)))"

text \<open>
  Before the colours, the component evaluates
  \<^verbatim>\<open>brandData?.tagline || brandData?.description?.slice(0, 100) || 'Modern & Professional'\<close>,
  which throws when the tagline is falsy and the description is neither \<open>null\<close>,
  \<open>undefined\<close>, a string nor an array. After them it returns the "No brand data
  available" page, which has no palette, when \<open>brandData\<close> is falsy, and otherwise the
  page whose colour card has one swatch for each entry of \<open>displayColors\<close>.
  \<open>BrandPersona_swatches\<close> is the colour card as the component builds it: the colours
  of its swatches. The other cards of the page and the components that the page embeds
  are not modelled.
\<close>

definition tagline_throws :: "jsval \<Rightarrow> bool" where
  "tagline_throws brand =
     (\<not> js_truthy (optional_get brand ''tagline'') \<and>
      (case optional_get brand ''description'' of
         None \<Rightarrow> False
       | Some JNull \<Rightarrow> False
       | Some (JStr s) \<Rightarrow> False
       | Some (JArr xs) \<Rightarrow> False
       | Some other \<Rightarrow> True))"

definition BrandPersona_swatches :: "jsval \<Rightarrow> js_error + (jsval list) option" where
  "BrandPersona_swatches brand =
     (if tagline_throws brand then Inl (TypeError ''brandData.description.slice is not a function'')
      else case displayColors brand of
             Inl e \<Rightarrow> Inl e
           | Inr shown \<Rightarrow>
               if \<not> js_truthy brand then Inr None
               else (case swatch_styles shown of
                       Inl e \<Rightarrow> Inl e
                     | Inr lights \<Rightarrow> Inr (Some shown)))"

text \<open>The byte that two hexadecimal digits denote.\<close>

definition byte_of :: "nat \<Rightarrow> nat \<Rightarrow> int" where
  "byte_of hi lo = int (16 * hi + lo)"

section \<open>The page script (\<open>app/static/js/main.js\<close>)\<close>

text \<open>
  The server-rendered page keeps the analysed brand in the variable \<open>brandData\<close>.
  \<^verbatim>\<open>
    async function analyzeBrand(source, data) {
        try {
            ...
            const response = await fetch('/brand/analyze', {
                method: 'POST',
                headers: { 'Content-Type': 'application/json' },
                body: JSON.stringify({ source, ...data })
            });
            const result = await response.json();
            if (!response.ok) {
                throw new Error(result.error || 'Failed to analyze brand');
            }
            brandData = result.brand_data;
            ...
        } catch (error) { ... }
    }
  \<close>
  Every throw is caught, so the call never rejects; what it leaves behind is the new
  value of \<open>brandData\<close>. The updates of the document are not modelled.
\<close>

definition page_request :: "string \<Rightarrow> (string \<times> jsval) list \<Rightarrow> request" where
  "page_request source_type props =
     \<lparr> req_url = ''/brand/analyze'',
       req_method = ''POST'',
       req_headers = [(''Content-Type'', ''application/json'')],
       req_body = JObj (stringify_fields ((''source'', Some (JStr source_type)) # props)) \<rparr>"

definition page_analyzeBrand ::
  "backend \<Rightarrow> string \<Rightarrow> (string \<times> jsval) list \<Rightarrow> jsval \<Rightarrow> net \<Rightarrow> jsval \<times> net" where
  "page_analyzeBrand srv source_type props current n =
     (let (settled, n') = fetch srv (page_request source_type props) n in
      (case settled of
         Inl e \<Rightarrow> current
       | Inr r \<Rightarrow>
           (case response_json r of
              Inl e \<Rightarrow> current
            | Inr result \<Rightarrow>
                if \<not> ok r then current
                else (case js_get result ''brand_data'' of
                        Inl e \<Rightarrow> current
                      | Inr v \<Rightarrow> v)),
       n'))"

section \<open>The extraction pipeline of the backend\<close>

text \<open>
  Modelled from the spec: the brand-extraction pipeline of the backend,
  \<open>app/services/asset_extractor.py\<close>, which is not among the sources. The model follows
  the purpose section of the specification and the stage list of the pipeline's
  documentation: BrandFetch enrichment, multi-page crawling (the homepage and up to
  three internal pages), asset discovery, external CSS analysis, DOM-weighted scoring,
  text condensation to 3500 characters, one JSON-mode pass of the AI model, and palette
  clustering with the merge of the website's findings and the BrandFetch data. What
  the documentation leaves open (the services called and the heuristics) is a
  parameter.
\<close>

record brand_assets =
  asset_logos :: "string list"
  asset_colors :: "string list"
  asset_fonts :: "string list"

definition no_assets :: brand_assets where
  "no_assets = \<lparr> asset_logos = [], asset_colors = [], asset_fonts = [] \<rparr>"

definition more_assets :: "brand_assets \<Rightarrow> brand_assets \<Rightarrow> brand_assets" where
  "more_assets a b =
     \<lparr> asset_logos = asset_logos a @ asset_logos b,
       asset_colors = asset_colors a @ asset_colors b,
       asset_fonts = asset_fonts a @ asset_fonts b \<rparr>"

record synthesis =
  archetype :: string
  voice :: string
  strategy :: string

record extractor =
  domain_hint :: "string \<Rightarrow> string"
  brandfetch_lookup :: "string \<Rightarrow> brand_assets"
  http_get :: "string \<Rightarrow> string"
  internal_links :: "string \<Rightarrow> string list"
  discover_assets :: "string \<Rightarrow> brand_assets"
  stylesheet_links :: "string \<Rightarrow> string list"
  stylesheet_assets :: "string \<Rightarrow> brand_assets"
  dom_weighted :: "string list \<Rightarrow> brand_assets \<Rightarrow> brand_assets"
  strip_boilerplate :: "string \<Rightarrow> string"
  gemini_json :: "string \<Rightarrow> brand_assets \<Rightarrow> synthesis"
  cluster_palette :: "brand_assets \<Rightarrow> brand_assets"
  merge_official :: "brand_assets \<Rightarrow> brand_assets \<Rightarrow> brand_assets"

text \<open>What the pipeline does, in the order in which it does it.\<close>

datatype event =
    BrandFetchQuery string
  | PageFetch string
  | AssetDiscovery
  | StylesheetFetch string
  | DomScoring
  | TextCondensation
  | AiSynthesis string
  | PaletteClustering
  | BrandFetchMerge

fun is_ai_call :: "event \<Rightarrow> bool" where
  "is_ai_call (AiSynthesis text) = True"
| "is_ai_call e = False"

text \<open>The stages that scan the website and prepare the AI call.\<close>

fun is_preparation :: "event \<Rightarrow> bool" where
  "is_preparation (PageFetch u) = True"
| "is_preparation AssetDiscovery = True"
| "is_preparation (StylesheetFetch u) = True"
| "is_preparation DomScoring = True"
| "is_preparation TextCondensation = True"
| "is_preparation e = False"

record extraction =
  trace :: "event list"
  official :: brand_assets
  pages :: "(string \<times> string) list"
  technical :: brand_assets
  condensed :: string
  persona :: "synthesis option"
  merged :: "brand_assets option"

definition start :: extraction where
  "start = \<lparr> trace = [], official = no_assets, pages = [], technical = no_assets,
             condensed = [], persona = None, merged = None \<rparr>"

text \<open>
  Modelled from the spec: stage 1 of the absent \<open>asset_extractor.py\<close>, BrandFetch
  enrichment. It queries the BrandFetch API with the domain hint and seeds the pipeline
  with the official logos, colours and fonts before the website is scanned.
\<close>

definition stage1 :: "extractor \<Rightarrow> string \<Rightarrow> extraction \<Rightarrow> extraction" where
  "stage1 x site st =
     st\<lparr> official := brandfetch_lookup x (domain_hint x site),
         trace := trace st @ [BrandFetchQuery (domain_hint x site)] \<rparr>"

text \<open>
  Modelled from the spec: stage 2 of the absent \<open>asset_extractor.py\<close>, multi-page
  crawling. It fetches the homepage, finds internal links in it by keyword and fetches
  up to three of them. The fetches are recorded in one order; the documentation runs
  the internal pages in parallel.
\<close>

definition stage2 :: "extractor \<Rightarrow> string \<Rightarrow> extraction \<Rightarrow> extraction" where
  "stage2 x site st =
     (let home = http_get x site;
          links = take 3 (internal_links x home)
      in st\<lparr> pages := (site, home) # map (\<lambda>l. (l, http_get x l)) links,
              trace := trace st @ PageFetch site # map PageFetch links \<rparr>)"

text \<open>
  Modelled from the spec: stage 3 of the absent \<open>asset_extractor.py\<close>, the discovery
  of logos, colours and fonts in the crawled pages.
\<close>

definition stage3 :: "extractor \<Rightarrow> extraction \<Rightarrow> extraction" where
  "stage3 x st =
     st\<lparr> technical := foldl more_assets (technical st) (map (\<lambda>p. discover_assets x (snd p)) (pages st)),
         trace := trace st @ [AssetDiscovery] \<rparr>"

text \<open>
  Modelled from the spec: stage 4 of the absent \<open>asset_extractor.py\<close>, external CSS
  analysis. It fetches the stylesheets that the pages link and takes colours and fonts
  from them.
\<close>

definition stage4 :: "extractor \<Rightarrow> extraction \<Rightarrow> extraction" where
  "stage4 x st =
     (let sheets = concat (map (\<lambda>p. stylesheet_links x (snd p)) (pages st))
      in st\<lparr> technical := foldl more_assets (technical st)
                             (map (\<lambda>s. stylesheet_assets x (http_get x s)) sheets),
              trace := trace st @ map StylesheetFetch sheets \<rparr>)"

text \<open>
  Modelled from the spec: stage 5 of the absent \<open>asset_extractor.py\<close>, DOM-weighted
  scoring of what was found.
\<close>

definition stage5 :: "extractor \<Rightarrow> extraction \<Rightarrow> extraction" where
  "stage5 x st =
     st\<lparr> technical := dom_weighted x (map snd (pages st)) (technical st),
         trace := trace st @ [DomScoring] \<rparr>"

text \<open>
  Modelled from the spec: stage 6 of the absent \<open>asset_extractor.py\<close>, text
  condensation. It strips the boilerplate from the text of the crawled pages and
  condenses it to the documented 3500 characters; the condensation is modelled as
  keeping the first 3500 characters.
\<close>

definition condensation_budget :: nat where
  "condensation_budget = 3500"

definition stage6 :: "extractor \<Rightarrow> extraction \<Rightarrow> extraction" where
  "stage6 x st =
     st\<lparr> condensed := take condensation_budget (strip_boilerplate x (concat (map snd (pages st)))),
         trace := trace st @ [TextCondensation] \<rparr>"

text \<open>
  Modelled from the spec: stage 7 of the absent \<open>asset_extractor.py\<close>, the single pass
  of the AI model in JSON mode, which is sent the condensed text and the technical
  findings.
\<close>

definition stage7 :: "extractor \<Rightarrow> extraction \<Rightarrow> extraction" where
  "stage7 x st =
     st\<lparr> persona := Some (gemini_json x (condensed st) (technical st)),
         trace := trace st @ [AiSynthesis (condensed st)] \<rparr>"

text \<open>
  Modelled from the spec: stage 8 of the absent \<open>asset_extractor.py\<close>, palette
  clustering and the merge of the website's findings with the BrandFetch data.
\<close>

definition stage8 :: "extractor \<Rightarrow> extraction \<Rightarrow> extraction" where
  "stage8 x st =
     st\<lparr> merged := Some (merge_official x (cluster_palette x (technical st)) (official st)),
         trace := trace st @ [PaletteClustering, BrandFetchMerge] \<rparr>"

text \<open>
  Modelled from the spec: the absent \<open>asset_extractor.py\<close> as a whole, its eight stages
  in their documented order; stages 2 to 6 are the scan of the website.
\<close>

definition scan_website :: "extractor \<Rightarrow> string \<Rightarrow> extraction \<Rightarrow> extraction" where
  "scan_website x site st = stage6 x (stage5 x (stage4 x (stage3 x (stage2 x site st))))"

definition extract_brand :: "extractor \<Rightarrow> string \<Rightarrow> extraction" where
  "extract_brand x site = stage8 x (stage7 x (scan_website x site (stage1 x site start)))"

text \<open>The pages that stage 2 crawls and the stylesheets that stage 4 fetches.\<close>

definition crawl_targets :: "extractor \<Rightarrow> string \<Rightarrow> string list" where
  "crawl_targets x site = take 3 (internal_links x (http_get x site))"

definition crawled_pages :: "extractor \<Rightarrow> string \<Rightarrow> (string \<times> string) list" where
  "crawled_pages x site =
     (site, http_get x site) # map (\<lambda>l. (l, http_get x l)) (crawl_targets x site)"

definition stylesheets :: "extractor \<Rightarrow> string \<Rightarrow> string list" where
  "stylesheets x site = concat (map (\<lambda>p. stylesheet_links x (snd p)) (crawled_pages x site))"

section \<open>The routes of the backend and the whole system\<close>

text \<open>
  Modelled from the spec: the route handlers of the Flask backend, the absent
  \<open>app/routes.py\<close>. The documentation describes them as stateless: no
  data is saved on the server, and the complete brand data goes back to the client.
  A handler therefore answers from the request alone and hands the server's store
  back as it received it.
\<close>

definition serve :: "backend \<Rightarrow> request \<Rightarrow> 'db \<Rightarrow> (string + response) \<times> 'db" where
  "serve app req db = (app req, db)"

text \<open>
  The system: the server's store, the React context, the page variable and the
  network. An action is one operation of a client: an analysis through the context, a
  reset of the context, an analysis through the page script, or a call of
  \<open>generateCalendar\<close> with the context's brand data. The server answers the request
  that the operation sends.
\<close>

record 'db system =
  server_store :: 'db
  provider :: brand_state
  page_brandData :: jsval
  wire :: net

datatype action =
    ContextAnalyze string
  | ContextClear
  | PageAnalyze string "(string \<times> jsval) list"
  | Calendar jsval

definition act :: "backend \<Rightarrow> action \<Rightarrow> 'db system \<Rightarrow> 'db system" where
  "act app a s =
     (case a of
        ContextAnalyze site \<Rightarrow>
          (let (answer, db) = serve app (analyzeBrand_request site) (server_store s);
               (settled, st, n) =
                 BrandProvider_analyzeBrand (analyzeBrand (\<lambda>req. answer)) site (provider s) (wire s)
           in s\<lparr> server_store := db, provider := st, wire := n \<rparr>)
      | ContextClear \<Rightarrow> s\<lparr> provider := clearBrandData (provider s) \<rparr>
      | PageAnalyze source_type props \<Rightarrow>
          (let (answer, db) = serve app (page_request source_type props) (server_store s);
               (v, n) = page_analyzeBrand (\<lambda>req. answer) source_type props (page_brandData s) (wire s)
           in s\<lparr> server_store := db, page_brandData := v, wire := n \<rparr>)
      | Calendar tone \<Rightarrow>
          (let (answer, db) =
                 serve app (generateCalendar_request (brandData (provider s)) tone) (server_store s);
               (settled, n) =
                 generateCalendar (\<lambda>req. answer) (brandData (provider s)) tone (wire s)
           in s\<lparr> server_store := db, wire := n \<rparr>))"

fun run :: "backend \<Rightarrow> action list \<Rightarrow> 'db system \<Rightarrow> 'db system" where
  "run app [] s = s"
| "run app (a # as) s = run app as (act app a s)"

section \<open>Concrete inputs\<close>

text \<open>The values at which the theorems below are instantiated.\<close>

definition demo_backend :: backend where
  "demo_backend req =
     Inr \<lparr> ok = True, status = 200,
           json_body = Inr (JObj [(''success'', JBool True),
                                  (''brand_data'', JObj [(''name'', JStr ''Acme'')])]) \<rparr>"

definition backend_down :: backend where
  "backend_down req = Inl ''Failed to fetch''"

definition empty_error_backend :: backend where
  "empty_error_backend req =
     Inr \<lparr> ok = False, status = 400, json_body = Inr (JObj [(''error'', JArr [])]) \<rparr>"

definition html_500 :: response where
  "html_500 = \<lparr> ok = False, status = 500, json_body = Inl ''Unexpected token <'' \<rparr>"

definition calendar_without_success :: response where
  "calendar_without_success =
     \<lparr> ok = True, status = 200, json_body = Inr (JObj [(''calendar'', JArr [])]) \<rparr>"

definition calendar_ok :: response where
  "calendar_ok =
     \<lparr> ok = True, status = 200,
       json_body = Inr (JObj [(''success'', JBool True), (''calendar'', JArr [JStr ''Monday''])]) \<rparr>"

definition initial_state :: brand_state where
  "initial_state =
     \<lparr> url = [], brandData = Some JNull,
       contentSettings = \<lparr>platforms = [], frequency = ''3/week''\<rparr>,
       generatedPosts = Some (JArr []), loading = False, error = None \<rparr>"

definition six_colors :: json where
  "six_colors = JObj [(''name'', JStr ''Acme''), (''tagline'', JStr ''Anvils''),
     (''colors'', JArr [JArr [JStr ''#ff0000'', JStr ''Red''], JStr ''#00ff00'', JStr ''#0000ff'',
                        JArr [], JStr ''#101010'', JStr ''#202020''])]"

definition demo_extractor :: extractor where
  "demo_extractor =
     \<lparr> domain_hint = (\<lambda>site. ''acme.test''),
       brandfetch_lookup = (\<lambda>d. \<lparr> asset_logos = [''acme.svg''], asset_colors = [''#ff6600''],
                                 asset_fonts = [''Acme Sans''] \<rparr>),
       http_get = (\<lambda>u. replicate 2000 CHR ''a''),
       internal_links = (\<lambda>html. [''/about'', ''/services'', ''/contact'', ''/blog'']),
       discover_assets = (\<lambda>html. \<lparr> asset_logos = [], asset_colors = [''#101010''],
                                   asset_fonts = [] \<rparr>),
       stylesheet_links = (\<lambda>html. []),
       stylesheet_assets = (\<lambda>css. no_assets),
       dom_weighted = (\<lambda>htmls found. found),
       strip_boilerplate = (\<lambda>text. text),
       gemini_json = (\<lambda>text hints. \<lparr> archetype = ''Hero'', voice = ''Bold'', strategy = ''Show'' \<rparr>),
       cluster_palette = (\<lambda>found. found\<lparr> asset_colors := remdups (asset_colors found) \<rparr>),
       merge_official = (\<lambda>found off. more_assets off found) \<rparr>"

definition demo_system :: "string list system" where
  "demo_system =
     \<lparr> server_store = [''sessions''], provider = initial_state,
       page_brandData = Some JNull, wire = \<lparr>sent = []\<rparr> \<rparr>"

section \<open>The API service: requests and results\<close>

lemma checked_body_not_ok:
  "\<not> ok r \<Longrightarrow> json_body r \<noteq> Inr JNull \<Longrightarrow>
   checked_body failed (Inr r) =
     Inl (new_Error (body_field r ''error'')
       (''API request failed with status '' @ string_of_nat (unat (status r))))"
  by (auto simp: checked_body_def response_json_def body_field_def
      split: sum.splits json.splits)

lemma checked_body_ok:
  "ok r \<Longrightarrow> json_body r = Inr d \<Longrightarrow> d \<noteq> JNull \<Longrightarrow>
   checked_body failed (Inr r) =
     (if js_truthy (body_field r ''success'') then Inr d
      else Inl (new_Error (body_field r ''error'') failed))"
  by (auto simp: checked_body_def response_json_def body_field_def
      split: sum.splits json.splits)

lemma js_get_body_field:
  "json_body r = Inr d \<Longrightarrow> d \<noteq> JNull \<Longrightarrow> js_get d name = Inr (body_field r name)"
  by (cases d) (auto simp: body_field_def)

lemma string_of_nat_500: "string_of_nat 500 = ''500''"
  by (simp add: string_of_nat.simps)

lemma new_Error_cases: "(\<exists>m. new_Error v fallback = Error m) \<or> new_Error v fallback = conversion_error"
  by (simp add: new_Error_def split: option.splits)

lemma new_Error_string: "s \<noteq> [] \<Longrightarrow> new_Error (Some (JStr s)) fallback = Error s"
  by (simp add: new_Error_def)

lemma new_Error_falsy: "\<not> js_truthy v \<Longrightarrow> new_Error v fallback = Error fallback"
  by (cases v) (simp_all add: new_Error_def)

text \<open>
  C3. Every call \<open>analyzeBrand(url)\<close> sends one request: a POST to \<open>/brand/analyze\<close> on
  the backend, with the JSON content type and the body \<open>{source: "url", url: url}\<close>.
  When the response is ok and its parsed body has \<open>success: true\<close>, the call returns
  the body's \<open>brand_data\<close> member (\<open>undefined\<close> if there is none).
\<close>

theorem analyzeBrand_posts_url_and_returns_brand_data:
  "sent (snd (analyzeBrand srv brandUrl n)) = sent n @ [analyzeBrand_request brandUrl]
   \<and> analyzeBrand_request brandUrl =
       \<lparr> req_url = ''http://localhost:5001/brand/analyze'',
         req_method = ''POST'',
         req_headers = [(''Content-Type'', ''application/json'')],
         req_body = JObj [(''source'', JStr ''url''), (''url'', JStr brandUrl)] \<rparr>
   \<and> (\<forall>r kvs. srv (analyzeBrand_request brandUrl) = Inr r \<and> ok r
          \<and> json_body r = Inr (JObj kvs)
          \<and> map_of (rev kvs) ''success'' = Some (JBool True)
        \<longrightarrow> fst (analyzeBrand srv brandUrl n) = Inr (map_of (rev kvs) ''brand_data''))"
proof (intro conjI allI impI)
  show "sent (snd (analyzeBrand srv brandUrl n)) = sent n @ [analyzeBrand_request brandUrl]"
    by (simp add: analyzeBrand_def fetch_def split: prod.splits)
  show "analyzeBrand_request brandUrl =
       \<lparr> req_url = ''http://localhost:5001/brand/analyze'',
         req_method = ''POST'',
         req_headers = [(''Content-Type'', ''application/json'')],
         req_body = JObj [(''source'', JStr ''url''), (''url'', JStr brandUrl)] \<rparr>"
    by (simp add: analyzeBrand_request_def post_json_def API_BASE_URL_def)
next
  fix r kvs
  assume h: "srv (analyzeBrand_request brandUrl) = Inr r \<and> ok r
          \<and> json_body r = Inr (JObj kvs)
          \<and> map_of (rev kvs) ''success'' = Some (JBool True)"
  then have "checked_body ''Brand analysis failed'' (Inr r) = Inr (JObj kvs)"
    by (simp add: checked_body_ok body_field_def)
  with h show "fst (analyzeBrand srv brandUrl n) = Inr (map_of (rev kvs) ''brand_data'')"
    by (simp add: analyzeBrand_def fetch_def split: prod.splits)
qed

theorem analyzeBrand_witness:
  "fst (analyzeBrand demo_backend ''https://acme.test'' \<lparr>sent = []\<rparr>)
     = Inr (Some (JObj [(''name'', JStr ''Acme'')]))
   \<and> sent (snd (analyzeBrand demo_backend ''https://acme.test'' \<lparr>sent = []\<rparr>))
     = [\<lparr> req_url = ''http://localhost:5001/brand/analyze'',
         req_method = ''POST'',
         req_headers = [(''Content-Type'', ''application/json'')],
         req_body = JObj [(''source'', JStr ''url''), (''url'', JStr ''https://acme.test'')] \<rparr>]"
  using analyzeBrand_posts_url_and_returns_brand_data
    [of demo_backend "''https://acme.test''" "\<lparr>sent = []\<rparr>"]
  by (simp add: demo_backend_def)

lemma generateCalendar_settled:
  "srv (generateCalendar_request brand tone) = Inr r \<Longrightarrow>
   fst (generateCalendar srv brand tone n) =
     (case checked_body ''Calendar generation failed'' (Inr r) of
        Inl e \<Rightarrow> Inl e | Inr data \<Rightarrow> js_get data ''calendar'')"
  by (simp add: generateCalendar_def fetch_def split: prod.splits)

text \<open>
  C4, as the code has it. \<open>generateCalendar(brandData, tone)\<close> sends a POST to
  \<open>/calendar/generate\<close> with the JSON body \<open>{brand_data, tone}\<close>. When \<open>fetch\<close> settles
  with a response whose body is not JSON \<open>null\<close> (and is JSON when the response is ok),
  the call throws if and only if the response is not ok or the body's \<open>success\<close>
  member is falsy: \<open>false\<close>, missing, \<open>null\<close>, \<open>0\<close> or \<open>""\<close>. What it throws is an
  \<open>Error\<close> whose message is the body's \<open>error\<close> member, converted to a string, when
  that member is truthy (the member itself when it is a string), and otherwise "API
  request failed with status N" for a response that is not ok and "Calendar generation
  failed" for one that is; only an \<open>error\<close> member that cannot be converted to a string
  makes it the \<open>TypeError\<close> of the conversion instead. In every other case the call
  returns the body's \<open>calendar\<close> member.
\<close>

theorem generateCalendar_throws_iff_not_ok_or_falsy_success:
  assumes settled: "srv (generateCalendar_request (Some brand) (Some tone)) = Inr r"
    and parsed: "ok r \<longrightarrow> (\<exists>d. json_body r = Inr d)"
    and not_null: "json_body r \<noteq> Inr JNull"
  shows "sent (snd (generateCalendar srv (Some brand) (Some tone) n))
           = sent n @ [\<lparr> req_url = ''http://localhost:5001/calendar/generate'',
                          req_method = ''POST'',
                          req_headers = [(''Content-Type'', ''application/json'')],
                          req_body = JObj [(''brand_data'', brand), (''tone'', tone)] \<rparr>]
       \<and> fst (generateCalendar srv (Some brand) (Some tone) n)
           = (if \<not> ok r then
                Inl (new_Error (body_field r ''error'')
                  (''API request failed with status '' @ string_of_nat (unat (status r))))
              else if \<not> js_truthy (body_field r ''success'') then
                Inl (new_Error (body_field r ''error'') ''Calendar generation failed'')
              else Inr (body_field r ''calendar''))
       \<and> ((\<exists>e. fst (generateCalendar srv (Some brand) (Some tone) n) = Inl e)
            \<longleftrightarrow> (\<not> ok r \<or> \<not> js_truthy (body_field r ''success'')))
       \<and> (\<forall>e. fst (generateCalendar srv (Some brand) (Some tone) n) = Inl e
              \<longrightarrow> (\<exists>m. e = Error m) \<or> e = conversion_error)
       \<and> (\<forall>s. body_field r ''error'' = Some (JStr s) \<and> s \<noteq> []
                \<and> (\<not> ok r \<or> \<not> js_truthy (body_field r ''success''))
              \<longrightarrow> fst (generateCalendar srv (Some brand) (Some tone) n) = Inl (Error s))
       \<and> (\<not> js_truthy (body_field r ''error'') \<and> \<not> ok r
              \<longrightarrow> fst (generateCalendar srv (Some brand) (Some tone) n)
                    = Inl (Error (''API request failed with status ''
                                    @ string_of_nat (unat (status r)))))
       \<and> (\<not> js_truthy (body_field r ''error'') \<and> ok r \<and> \<not> js_truthy (body_field r ''success'')
              \<longrightarrow> fst (generateCalendar srv (Some brand) (Some tone) n)
                    = Inl (Error ''Calendar generation failed''))"
proof -
  let ?result = "fst (generateCalendar srv (Some brand) (Some tone) n)"
  let ?status = "''API request failed with status '' @ string_of_nat (unat (status r))"
  have req: "sent (snd (generateCalendar srv (Some brand) (Some tone) n))
           = sent n @ [\<lparr> req_url = ''http://localhost:5001/calendar/generate'',
                          req_method = ''POST'',
                          req_headers = [(''Content-Type'', ''application/json'')],
                          req_body = JObj [(''brand_data'', brand), (''tone'', tone)] \<rparr>]"
    by (simp add: generateCalendar_def fetch_def generateCalendar_request_def post_json_def
        API_BASE_URL_def tone_or_default_def split: prod.splits)
  note run = generateCalendar_settled [of srv "Some brand" "Some tone" r n, OF settled]
  have res: "?result
           = (if \<not> ok r then Inl (new_Error (body_field r ''error'') ?status)
              else if \<not> js_truthy (body_field r ''success'') then
                Inl (new_Error (body_field r ''error'') ''Calendar generation failed'')
              else Inr (body_field r ''calendar''))"
  proof (cases "ok r")
    case False
    then show ?thesis
      using not_null by (simp add: run checked_body_not_ok)
  next
    case True
    with parsed obtain d where d: "json_body r = Inr d" by blast
    with not_null have "d \<noteq> JNull" by simp
    with True d show ?thesis
      by (simp add: run checked_body_ok js_get_body_field)
  qed
  have throws: "(\<exists>e. ?result = Inl e)
            \<longleftrightarrow> (\<not> ok r \<or> \<not> js_truthy (body_field r ''success''))"
    unfolding res by simp
  have kind: "\<forall>e. ?result = Inl e \<longrightarrow> (\<exists>m. e = Error m) \<or> e = conversion_error"
    unfolding res
    using new_Error_cases [of "body_field r ''error''" ?status]
      new_Error_cases [of "body_field r ''error''" "''Calendar generation failed''"]
    by (auto split: if_splits)
  have given: "\<forall>s. body_field r ''error'' = Some (JStr s) \<and> s \<noteq> []
                \<and> (\<not> ok r \<or> \<not> js_truthy (body_field r ''success''))
              \<longrightarrow> ?result = Inl (Error s)"
    unfolding res by (simp add: new_Error_string)
  have status_text: "\<not> js_truthy (body_field r ''error'') \<and> \<not> ok r
              \<longrightarrow> ?result = Inl (Error ?status)"
    unfolding res by (simp add: new_Error_falsy)
  have failed_text: "\<not> js_truthy (body_field r ''error'') \<and> ok r
                \<and> \<not> js_truthy (body_field r ''success'')
              \<longrightarrow> ?result = Inl (Error ''Calendar generation failed'')"
    unfolding res by (simp add: new_Error_falsy)
  from req res throws kind given status_text failed_text show ?thesis
    by (intro conjI)
qed

theorem generateCalendar_witness:
  "fst (generateCalendar (\<lambda>req. Inr html_500)
          (Some (JObj [(''name'', JStr ''Acme'')])) (Some (JStr ''casual'')) \<lparr>sent = []\<rparr>)
     = Inl (Error ''API request failed with status 500'')
   \<and> fst (generateCalendar (\<lambda>req. Inr calendar_ok)
          (Some (JObj [(''name'', JStr ''Acme'')])) (Some (JStr ''casual'')) \<lparr>sent = []\<rparr>)
     = Inr (Some (JArr [JStr ''Monday'']))
   \<and> sent (snd (generateCalendar (\<lambda>req. Inr calendar_ok)
          (Some (JObj [(''name'', JStr ''Acme'')])) (Some (JStr ''casual'')) \<lparr>sent = []\<rparr>))
     = [\<lparr> req_url = ''http://localhost:5001/calendar/generate'',
          req_method = ''POST'',
          req_headers = [(''Content-Type'', ''application/json'')],
          req_body = JObj [(''brand_data'', JObj [(''name'', JStr ''Acme'')]),
                           (''tone'', JStr ''casual'')] \<rparr>]"
proof -
  note down = generateCalendar_throws_iff_not_ok_or_falsy_success
    [of "\<lambda>req. Inr html_500" "JObj [(''name'', JStr ''Acme'')]" "JStr ''casual''" html_500
        "\<lparr>sent = []\<rparr>"]
  note up = generateCalendar_throws_iff_not_ok_or_falsy_success
    [of "\<lambda>req. Inr calendar_ok" "JObj [(''name'', JStr ''Acme'')]" "JStr ''casual''" calendar_ok
        "\<lparr>sent = []\<rparr>"]
  have "fst (generateCalendar (\<lambda>req. Inr html_500)
          (Some (JObj [(''name'', JStr ''Acme'')])) (Some (JStr ''casual'')) \<lparr>sent = []\<rparr>)
     = Inl (Error ''API request failed with status 500'')"
    using down by (simp add: html_500_def body_field_def new_Error_def string_of_nat_500)
  moreover have "fst (generateCalendar (\<lambda>req. Inr calendar_ok)
          (Some (JObj [(''name'', JStr ''Acme'')])) (Some (JStr ''casual'')) \<lparr>sent = []\<rparr>)
     = Inr (Some (JArr [JStr ''Monday'']))
   \<and> sent (snd (generateCalendar (\<lambda>req. Inr calendar_ok)
          (Some (JObj [(''name'', JStr ''Acme'')])) (Some (JStr ''casual'')) \<lparr>sent = []\<rparr>))
     = [\<lparr> req_url = ''http://localhost:5001/calendar/generate'',
          req_method = ''POST'',
          req_headers = [(''Content-Type'', ''application/json'')],
          req_body = JObj [(''brand_data'', JObj [(''name'', JStr ''Acme'')]),
                           (''tone'', JStr ''casual'')] \<rparr>]"
    using up by (simp add: calendar_ok_def body_field_def)
  ultimately show ?thesis by simp
qed

text \<open>
  Two inputs at which the code leaves the spec's wording. An ok response whose body is
  \<open>{"calendar": []}\<close> has no \<open>success\<close> member, so that member is not \<open>false\<close>, and the
  call throws all the same. A 500 response whose body is an HTML page carries no error
  message, and the \<open>Error\<close> thrown carries the text built from the status code.
\<close>

theorem generateCalendar_counterexample:
  "fst (generateCalendar (\<lambda>req. Inr calendar_without_success)
          (Some (JObj [(''name'', JStr ''Acme'')])) (Some (JStr ''casual'')) \<lparr>sent = []\<rparr>)
     = Inl (Error ''Calendar generation failed'')
   \<and> ok calendar_without_success
   \<and> body_field calendar_without_success ''success'' \<noteq> Some (JBool False)
   \<and> body_field calendar_without_success ''error'' = None
   \<and> fst (generateCalendar (\<lambda>req. Inr html_500)
          (Some (JObj [(''name'', JStr ''Acme'')])) (Some (JStr ''casual'')) \<lparr>sent = []\<rparr>)
     = Inl (Error ''API request failed with status 500'')
   \<and> body_field html_500 ''error'' = None"
  by (simp add: generateCalendar_def fetch_def checked_body_def response_json_def
      calendar_without_success_def html_500_def body_field_def new_Error_def
      string_of_nat_500 split: prod.splits)

section \<open>The brand context: failure of an analysis\<close>

lemma analyzeBrand_backend_down:
  "analyzeBrand backend_down u n =
     (Inl (TypeError ''Failed to fetch''), n\<lparr>sent := sent n @ [analyzeBrand_request u]\<rparr>)"
  by (simp add: analyzeBrand_def fetch_def backend_down_def checked_body_def)

lemma analyzeBrand_empty_error:
  "analyzeBrand empty_error_backend u n =
     (Inl (Error []), n\<lparr>sent := sent n @ [analyzeBrand_request u]\<rparr>)"
  by (simp add: analyzeBrand_def fetch_def empty_error_backend_def checked_body_def
      response_json_def new_Error_def)

text \<open>
  C8, as the code has it. After \<open>analyzeBrand\<close> of the context completes, \<open>loading\<close> is
  false, whether the API call resolved or rejected. When the API call rejects with
  \<open>err\<close>, the context's call rejects with the same \<open>err\<close>, and the state is the state
  before the call with \<open>loading\<close> false and \<open>error\<close> set to \<open>err.message\<close>, or to
  "Failed to analyze brand" when \<open>err.message\<close> is empty; \<open>brandData\<close> and every other
  field are as they were.
\<close>

theorem BrandProvider_analyzeBrand_failure_atomic:
  "loading (fst (snd (BrandProvider_analyzeBrand api brandUrl st n))) = False
   \<and> (\<forall>err n'. api brandUrl n = (Inl err, n') \<longrightarrow>
         BrandProvider_analyzeBrand api brandUrl st n =
           (Inl err,
            st\<lparr>loading := False,
               error := Some (if message err = [] then ''Failed to analyze brand''
                              else message err)\<rparr>,
            n')
         \<and> brandData (fst (snd (BrandProvider_analyzeBrand api brandUrl st n))) = brandData st)"
  by (auto simp: BrandProvider_analyzeBrand_def message_or_def Let_def
      split: prod.splits sum.splits)

theorem BrandProvider_analyzeBrand_witness:
  "BrandProvider_analyzeBrand (analyzeBrand backend_down) ''https://acme.test''
       (initial_state\<lparr>brandData := Some (JStr ''kept'')\<rparr>) \<lparr>sent = []\<rparr>
     = (Inl (TypeError ''Failed to fetch''),
        initial_state\<lparr>brandData := Some (JStr ''kept''), error := Some ''Failed to fetch''\<rparr>,
        \<lparr>sent = [analyzeBrand_request ''https://acme.test'']\<rparr>)"
  using BrandProvider_analyzeBrand_failure_atomic
    [of "analyzeBrand backend_down" "''https://acme.test''"
        "initial_state\<lparr>brandData := Some (JStr ''kept'')\<rparr>" "\<lparr>sent = []\<rparr>"]
  by (simp add: analyzeBrand_backend_down initial_state_def)

text \<open>
  An input at which the error state is not the message of the failure. The backend
  answers 400 with the body \<open>{"error": []}\<close>; the empty array is truthy and prints as
  the empty string, so the API call rejects with an \<open>Error\<close> whose message is empty,
  and the context sets \<open>error\<close> to "Failed to analyze brand".
\<close>

theorem BrandProvider_analyzeBrand_counterexample:
  "BrandProvider_analyzeBrand (analyzeBrand empty_error_backend) ''https://acme.test''
       initial_state \<lparr>sent = []\<rparr>
     = (Inl (Error []),
        initial_state\<lparr>error := Some ''Failed to analyze brand''\<rparr>,
        \<lparr>sent = [analyzeBrand_request ''https://acme.test'']\<rparr>)
   \<and> message (Error []) = []
   \<and> error (fst (snd (BrandProvider_analyzeBrand (analyzeBrand empty_error_backend)
         ''https://acme.test'' initial_state \<lparr>sent = []\<rparr>))) \<noteq> Some (message (Error []))"
  by (simp add: BrandProvider_analyzeBrand_def analyzeBrand_empty_error message_or_def
      initial_state_def)

section \<open>The persona page: contrast and palette\<close>

lemma digit16_not_whitespace: "digit16 c = Some d \<Longrightarrow> \<not> js_whitespace c"
  by (auto simp: digit16_def js_whitespace_def)

lemma digit16_not_sign: "digit16 c = Some d \<Longrightarrow> c \<noteq> CHR ''-'' \<and> c \<noteq> CHR ''+''"
  by (auto simp: digit16_def)

lemma digit16_not_x: "digit16 c = Some d \<Longrightarrow> c \<noteq> CHR ''x'' \<and> c \<noteq> CHR ''X''"
  by (auto simp: digit16_def)

lemma digit16_less: "digit16 c = Some d \<Longrightarrow> d < 16"
  by (auto simp: digit16_def Let_def split: if_splits)

lemma parseInt16_two_digits:
  assumes "digit16 a = Some hi" and "digit16 b = Some lo"
  shows "parseInt16 [a, b] = Some (byte_of hi lo)"
  using assms digit16_not_whitespace [OF assms(1)] digit16_not_sign [OF assms(1)]
    digit16_not_x [OF assms(2)]
  by (simp add: parseInt16_def byte_of_def)

text \<open>
  C9. \<open>isLightColor\<close> returns true for \<open>undefined\<close>, for \<open>null\<close> and for the empty
  string. For a string \<open>#RRGGBB\<close> of six hexadecimal digits it returns true exactly
  when \<open>(299 R + 587 G + 114 B) / 1000 > 155\<close>, where \<open>R\<close>, \<open>G\<close> and \<open>B\<close> are the bytes,
  between 0 and 255, that the three pairs of digits denote.
\<close>

theorem isLightColor_brightness_threshold:
  "isLightColor None = Inr True
   \<and> isLightColor (Some JNull) = Inr True
   \<and> isLightColor (Some (JStr [])) = Inr True
   \<and> (\<forall>r1 r0 g1 g0 b1 b0.
         digit16 c1 = Some r1 \<and> digit16 c2 = Some r0 \<and> digit16 c3 = Some g1
         \<and> digit16 c4 = Some g0 \<and> digit16 c5 = Some b1 \<and> digit16 c6 = Some b0
       \<longrightarrow> isLightColor (Some (JStr [CHR ''#'', c1, c2, c3, c4, c5, c6]))
           = Inr ((299 * of_int (byte_of r1 r0) + 587 * of_int (byte_of g1 g0)
                   + 114 * of_int (byte_of b1 b0)) / (1000 :: rat) > 155)
         \<and> 0 \<le> byte_of r1 r0 \<and> byte_of r1 r0 \<le> 255
         \<and> 0 \<le> byte_of g1 g0 \<and> byte_of g1 g0 \<le> 255
         \<and> 0 \<le> byte_of b1 b0 \<and> byte_of b1 b0 \<le> 255)"
proof (intro conjI allI impI)
  show "isLightColor None = Inr True" "isLightColor (Some JNull) = Inr True"
    "isLightColor (Some (JStr [])) = Inr True"
    by (simp_all add: isLightColor_def)
next
  fix r1 r0 g1 g0 b1 b0
  assume h: "digit16 c1 = Some r1 \<and> digit16 c2 = Some r0 \<and> digit16 c3 = Some g1
         \<and> digit16 c4 = Some g0 \<and> digit16 c5 = Some b1 \<and> digit16 c6 = Some b0"
  then have r: "parseInt16 [c1, c2] = Some (byte_of r1 r0)"
    and g: "parseInt16 [c3, c4] = Some (byte_of g1 g0)"
    and b: "parseInt16 [c5, c6] = Some (byte_of b1 b0)"
    by (simp_all add: parseInt16_two_digits)
  show "isLightColor (Some (JStr [CHR ''#'', c1, c2, c3, c4, c5, c6]))
           = Inr ((299 * of_int (byte_of r1 r0) + 587 * of_int (byte_of g1 g0)
                   + 114 * of_int (byte_of b1 b0)) / (1000 :: rat) > 155)"
    by (simp add: isLightColor_def substr_def r g b brightness_def mult.commute)
  from h have "r1 < 16" "r0 < 16" "g1 < 16" "g0 < 16" "b1 < 16" "b0 < 16"
    by (auto dest: digit16_less)
  then show "0 \<le> byte_of r1 r0" "byte_of r1 r0 \<le> 255" "0 \<le> byte_of g1 g0"
    "byte_of g1 g0 \<le> 255" "0 \<le> byte_of b1 b0" "byte_of b1 b0 \<le> 255"
    by (simp_all add: byte_of_def)
qed

lemma digit16_f: "digit16 CHR ''f'' = Some 15"
  by (simp add: digit16_def)

lemma digit16_9: "digit16 CHR ''9'' = Some 9"
  by (simp add: digit16_def)

theorem isLightColor_witness:
  "isLightColor (Some (JStr ''#f9f9f9'')) = Inr True"
  using isLightColor_brightness_threshold
    [of "CHR ''f''" "CHR ''9''" "CHR ''f''" "CHR ''9''" "CHR ''f''" "CHR ''9''"]
  by (simp add: digit16_f digit16_9 byte_of_def)

lemma displayColors_array:
  "optional_get brand ''colors'' = Some (JArr cs) \<Longrightarrow>
   displayColors brand = Inr (if cs = [] then fallback_colors else map hex_of (take 5 cs))"
  by (simp add: displayColors_def)

lemma displayColors_falsy:
  "\<not> js_truthy (optional_get brand ''colors'') \<Longrightarrow> displayColors brand = Inr fallback_colors"
  by (simp add: displayColors_def)

lemma displayColors_cases:
  "displayColors brand = Inr shown \<Longrightarrow>
   shown = fallback_colors \<or> (\<exists>cs. cs \<noteq> [] \<and> shown = map hex_of (take 5 cs))"
proof (cases "js_truthy (optional_get brand ''colors'')")
  case False
  assume "displayColors brand = Inr shown"
  with False show ?thesis by (simp add: displayColors_falsy)
next
  case True
  assume a: "displayColors brand = Inr shown"
  show ?thesis
  proof (cases "optional_get brand ''colors''")
    case None
    with True show ?thesis by simp
  next
    case (Some c)
    with a True show ?thesis
      by (cases c) (auto simp: displayColors_def split: if_splits)
  qed
qed

lemma displayColors_bounds:
  "displayColors brand = Inr shown \<Longrightarrow> shown \<noteq> [] \<and> length shown \<le> 5"
  by (auto dest!: displayColors_cases simp: fallback_colors_def)

lemma swatches_are_displayColors:
  "BrandPersona_swatches brand = Inr (Some shown) \<Longrightarrow> displayColors brand = Inr shown"
  by (cases "displayColors brand")
    (simp_all add: BrandPersona_swatches_def split: if_splits sum.splits)

lemma isLightColor_string: "\<exists>light. isLightColor (Some (JStr s)) = Inr light"
  by (cases "parseInt16 (substr (remove1 CHR ''#'' s) 0 2)";
      cases "parseInt16 (substr (remove1 CHR ''#'' s) 2 2)";
      cases "parseInt16 (substr (remove1 CHR ''#'' s) 4 2)")
    (auto simp: isLightColor_def Let_def)

lemma isLightColor_undefined: "isLightColor None = Inr True"
  by (simp add: isLightColor_def)

lemma swatch_styles_strings:
  "\<forall>c \<in> set cs. c = None \<or> (\<exists>s. c = Some (JStr s)) \<Longrightarrow> \<exists>lights. swatch_styles cs = Inr lights"
proof (induction cs)
  case Nil
  then show ?case by simp
next
  case (Cons c cs)
  then obtain lights where rest: "swatch_styles cs = Inr lights" by auto
  from Cons.prems have "c = None \<or> (\<exists>s. c = Some (JStr s))" by simp
  then have "\<exists>light. isLightColor c = Inr light"
    using isLightColor_string isLightColor_undefined by blast
  then obtain light where "isLightColor c = Inr light" ..
  with rest show ?case by simp
qed

lemma six_colors_swatches:
  "BrandPersona_swatches (Some six_colors)
     = Inr (Some [Some (JStr ''#ff0000''), Some (JStr ''#00ff00''), Some (JStr ''#0000ff''),
                  None, Some (JStr ''#101010'')])"
proof -
  have shown: "displayColors (Some six_colors)
     = Inr [Some (JStr ''#ff0000''), Some (JStr ''#00ff00''), Some (JStr ''#0000ff''),
            None, Some (JStr ''#101010'')]"
    by (simp add: six_colors_def optional_get_def displayColors_def)
  have "\<exists>lights. swatch_styles [Some (JStr ''#ff0000''), Some (JStr ''#00ff00''),
            Some (JStr ''#0000ff''), None, Some (JStr ''#101010'')] = Inr lights"
    by (rule swatch_styles_strings) simp
  then obtain lights where "swatch_styles [Some (JStr ''#ff0000''), Some (JStr ''#00ff00''),
            Some (JStr ''#0000ff''), None, Some (JStr ''#101010'')] = Inr lights" ..
  moreover have "\<not> tagline_throws (Some six_colors)"
    by (simp add: tagline_throws_def six_colors_def optional_get_def)
  moreover have "js_truthy (Some six_colors)"
    by (simp add: six_colors_def)
  ultimately show ?thesis
    by (simp add: BrandPersona_swatches_def shown)
qed

text \<open>
  C10. The palette that the persona page shows is never empty and has at most five
  entries. When the brand's \<open>colors\<close> is an array, the palette is its first five
  elements, each \<open>[hex, name]\<close> pair replaced by its first component and every other
  element kept as it is; when that list is empty, or \<open>colors\<close> is missing or falsy, the
  palette is \<open>#111111\<close>, \<open>#00c237\<close>, \<open>#f9f9f9\<close>. The swatches of a rendered persona page
  are this palette.
\<close>

theorem displayColors_nonempty_at_most_five:
  "(\<not> js_truthy (optional_get brand ''colors'') \<longrightarrow> displayColors brand = Inr fallback_colors)
   \<and> (\<forall>cs. optional_get brand ''colors'' = Some (JArr cs) \<longrightarrow>
          displayColors brand = Inr (if cs = [] then fallback_colors else map hex_of (take 5 cs)))
   \<and> (\<forall>shown. displayColors brand = Inr shown \<longrightarrow> shown \<noteq> [] \<and> length shown \<le> 5)
   \<and> (\<forall>shown. BrandPersona_swatches brand = Inr (Some shown) \<longrightarrow>
          displayColors brand = Inr shown)
   \<and> fallback_colors = [Some (JStr ''#111111''), Some (JStr ''#00c237''), Some (JStr ''#f9f9f9'')]"
proof (intro conjI allI impI)
  show "fallback_colors = [Some (JStr ''#111111''), Some (JStr ''#00c237''), Some (JStr ''#f9f9f9'')]"
    by (simp add: fallback_colors_def)
next
  fix shown assume "displayColors brand = Inr shown"
  then show "shown \<noteq> []" "length shown \<le> 5"
    using displayColors_bounds by blast+
next
  assume "\<not> js_truthy (optional_get brand ''colors'')"
  then show "displayColors brand = Inr fallback_colors" by (rule displayColors_falsy)
next
  fix cs assume "optional_get brand ''colors'' = Some (JArr cs)"
  then show "displayColors brand = Inr (if cs = [] then fallback_colors else map hex_of (take 5 cs))"
    by (rule displayColors_array)
next
  fix shown assume "BrandPersona_swatches brand = Inr (Some shown)"
  then show "displayColors brand = Inr shown" by (rule swatches_are_displayColors)
qed

theorem displayColors_witness:
  "BrandPersona_swatches (Some six_colors)
     = Inr (Some [Some (JStr ''#ff0000''), Some (JStr ''#00ff00''), Some (JStr ''#0000ff''),
                  None, Some (JStr ''#101010'')])
   \<and> displayColors (Some six_colors)
     = Inr [Some (JStr ''#ff0000''), Some (JStr ''#00ff00''), Some (JStr ''#0000ff''),
            None, Some (JStr ''#101010'')]
   \<and> displayColors (Some (JObj [(''colors'', JArr [])])) = Inr fallback_colors
   \<and> displayColors None = Inr fallback_colors"
proof -
  note six = displayColors_nonempty_at_most_five [of "Some six_colors"]
  note empty = displayColors_nonempty_at_most_five [of "Some (JObj [(''colors'', JArr [])])"]
  note none = displayColors_nonempty_at_most_five [of None]
  have "displayColors (Some six_colors)
     = Inr [Some (JStr ''#ff0000''), Some (JStr ''#00ff00''), Some (JStr ''#0000ff''),
            None, Some (JStr ''#101010'')]"
    using six six_colors_swatches by blast
  moreover have "displayColors (Some (JObj [(''colors'', JArr [])])) = Inr fallback_colors"
    using empty by (simp add: optional_get_def)
  moreover have "displayColors None = Inr fallback_colors"
    using none by (simp add: optional_get_def)
  ultimately show ?thesis using six_colors_swatches by simp
qed

section \<open>The extraction pipeline: order of the stages\<close>

lemma pages_extract_brand: "pages (extract_brand x site) = crawled_pages x site"
  by (simp add: extract_brand_def scan_website_def stage1_def stage2_def stage3_def stage4_def
      stage5_def stage6_def stage7_def stage8_def crawled_pages_def crawl_targets_def Let_def)

lemma condensed_extract_brand:
  "condensed (extract_brand x site) =
     take condensation_budget (strip_boilerplate x (concat (map snd (crawled_pages x site))))"
  by (simp add: extract_brand_def scan_website_def stage1_def stage2_def stage3_def stage4_def
      stage5_def stage6_def stage7_def stage8_def crawled_pages_def crawl_targets_def Let_def)

lemma trace_extract_brand:
  "trace (extract_brand x site) =
     BrandFetchQuery (domain_hint x site)
     # PageFetch site # map PageFetch (crawl_targets x site)
     @ AssetDiscovery # map StylesheetFetch (stylesheets x site)
     @ [DomScoring, TextCondensation, AiSynthesis (condensed (extract_brand x site)),
        PaletteClustering, BrandFetchMerge]"
  unfolding condensed_extract_brand
  by (simp add: extract_brand_def scan_website_def stage1_def stage2_def stage3_def stage4_def
      stage5_def stage6_def stage7_def stage8_def crawled_pages_def crawl_targets_def
      stylesheets_def start_def Let_def)

lemma trace_demo:
  "trace (extract_brand demo_extractor ''https://acme.test'') =
     [BrandFetchQuery ''acme.test'', PageFetch ''https://acme.test'', PageFetch ''/about'',
      PageFetch ''/services'', PageFetch ''/contact'', AssetDiscovery, DomScoring,
      TextCondensation, AiSynthesis (condensed (extract_brand demo_extractor ''https://acme.test'')),
      PaletteClustering, BrandFetchMerge]"
  by (simp add: trace_extract_brand crawl_targets_def stylesheets_def crawled_pages_def
      demo_extractor_def)

lemma condensed_demo:
  "length (condensed (extract_brand demo_extractor ''https://acme.test'')) = 3500"
  by (simp add: condensed_extract_brand crawl_targets_def crawled_pages_def demo_extractor_def
      condensation_budget_def)

text \<open>
  C1. In the pipeline as documented, every analysis of a URL calls the AI model exactly
  once. The call is sent the condensed text, and the crawl of the site, the asset
  discovery, the DOM-weighted scoring and the text condensation all come before it;
  nothing that follows the call fetches, discovers, scores or condenses.
\<close>

theorem extract_brand_single_ai_call:
  "length (filter is_ai_call (trace (extract_brand x site))) = 1
   \<and> (\<exists>before after.
         trace (extract_brand x site)
           = before @ AiSynthesis (condensed (extract_brand x site)) # after
         \<and> PageFetch site \<in> set before \<and> AssetDiscovery \<in> set before
         \<and> DomScoring \<in> set before \<and> TextCondensation \<in> set before
         \<and> (\<forall>e \<in> set before. \<not> is_ai_call e)
         \<and> (\<forall>e \<in> set after. \<not> is_preparation e \<and> \<not> is_ai_call e))"
proof
  show "length (filter is_ai_call (trace (extract_brand x site))) = 1"
    by (simp add: trace_extract_brand filter_map comp_def)
next
  let ?before = "BrandFetchQuery (domain_hint x site)
     # PageFetch site # map PageFetch (crawl_targets x site)
     @ AssetDiscovery # map StylesheetFetch (stylesheets x site)
     @ [DomScoring, TextCondensation]"
  let ?after = "[PaletteClustering, BrandFetchMerge]"
  have "trace (extract_brand x site)
           = ?before @ AiSynthesis (condensed (extract_brand x site)) # ?after"
    by (simp add: trace_extract_brand)
  moreover have "PageFetch site \<in> set ?before \<and> AssetDiscovery \<in> set ?before
         \<and> DomScoring \<in> set ?before \<and> TextCondensation \<in> set ?before"
    by simp
  moreover have "\<forall>e \<in> set ?before. \<not> is_ai_call e"
    by auto
  moreover have "\<forall>e \<in> set ?after. \<not> is_preparation e \<and> \<not> is_ai_call e"
    by simp
  ultimately show "\<exists>before after.
         trace (extract_brand x site)
           = before @ AiSynthesis (condensed (extract_brand x site)) # after
         \<and> PageFetch site \<in> set before \<and> AssetDiscovery \<in> set before
         \<and> DomScoring \<in> set before \<and> TextCondensation \<in> set before
         \<and> (\<forall>e \<in> set before. \<not> is_ai_call e)
         \<and> (\<forall>e \<in> set after. \<not> is_preparation e \<and> \<not> is_ai_call e)"
    by blast
qed

theorem extract_brand_single_ai_call_witness:
  "length (filter is_ai_call (trace (extract_brand demo_extractor ''https://acme.test''))) = 1
   \<and> filter is_ai_call (trace (extract_brand demo_extractor ''https://acme.test''))
       = [AiSynthesis (condensed (extract_brand demo_extractor ''https://acme.test''))]"
  using extract_brand_single_ai_call [of demo_extractor "''https://acme.test''"]
  by (simp add: trace_demo)

text \<open>
  C2. In the pipeline as documented, the merge of the website's findings with the
  BrandFetch data is the last thing an analysis does, and it happens once: the crawl,
  the asset discovery, the scoring, the condensation and the AI call all come before
  it, and the brand data returned is the result of that merge. (The BrandFetch API
  itself is queried first, before the website is scanned; its answer is kept until
  the merge.)
\<close>

theorem extract_brand_merge_is_last:
  "hd (trace (extract_brand x site)) = BrandFetchQuery (domain_hint x site)
   \<and> (\<exists>before.
         trace (extract_brand x site) = before @ [BrandFetchMerge]
         \<and> BrandFetchMerge \<notin> set before
         \<and> PageFetch site \<in> set before \<and> AssetDiscovery \<in> set before
         \<and> DomScoring \<in> set before \<and> TextCondensation \<in> set before
         \<and> AiSynthesis (condensed (extract_brand x site)) \<in> set before
         \<and> (\<forall>e \<in> set (trace (extract_brand x site)).
               is_preparation e \<or> is_ai_call e \<longrightarrow> e \<in> set before))
   \<and> merged (extract_brand x site)
       = Some (merge_official x
                 (cluster_palette x (technical (scan_website x site (stage1 x site start))))
                 (brandfetch_lookup x (domain_hint x site)))"
proof (intro conjI)
  show "hd (trace (extract_brand x site)) = BrandFetchQuery (domain_hint x site)"
    by (simp add: trace_extract_brand)
next
  let ?before = "BrandFetchQuery (domain_hint x site)
     # PageFetch site # map PageFetch (crawl_targets x site)
     @ AssetDiscovery # map StylesheetFetch (stylesheets x site)
     @ [DomScoring, TextCondensation, AiSynthesis (condensed (extract_brand x site)),
        PaletteClustering]"
  have split: "trace (extract_brand x site) = ?before @ [BrandFetchMerge]"
    by (simp add: trace_extract_brand)
  have fresh: "BrandFetchMerge \<notin> set ?before"
    by auto
  have stages: "PageFetch site \<in> set ?before \<and> AssetDiscovery \<in> set ?before
         \<and> DomScoring \<in> set ?before \<and> TextCondensation \<in> set ?before
         \<and> AiSynthesis (condensed (extract_brand x site)) \<in> set ?before"
    by simp
  have "\<forall>e \<in> set (?before @ [BrandFetchMerge]).
               is_preparation e \<or> is_ai_call e \<longrightarrow> e \<in> set ?before"
    by auto
  then have earlier: "\<forall>e \<in> set (trace (extract_brand x site)).
               is_preparation e \<or> is_ai_call e \<longrightarrow> e \<in> set ?before"
    by (simp only: split)
  from split fresh stages earlier
  show "\<exists>before.
         trace (extract_brand x site) = before @ [BrandFetchMerge]
         \<and> BrandFetchMerge \<notin> set before
         \<and> PageFetch site \<in> set before \<and> AssetDiscovery \<in> set before
         \<and> DomScoring \<in> set before \<and> TextCondensation \<in> set before
         \<and> AiSynthesis (condensed (extract_brand x site)) \<in> set before
         \<and> (\<forall>e \<in> set (trace (extract_brand x site)).
               is_preparation e \<or> is_ai_call e \<longrightarrow> e \<in> set before)"
    by blast
next
  show "merged (extract_brand x site)
       = Some (merge_official x
                 (cluster_palette x (technical (scan_website x site (stage1 x site start))))
                 (brandfetch_lookup x (domain_hint x site)))"
    by (simp add: extract_brand_def scan_website_def stage1_def stage2_def stage3_def stage4_def
      stage5_def stage6_def stage7_def stage8_def Let_def)
qed

lemma technical_demo:
  "technical (scan_website demo_extractor ''https://acme.test''
      (stage1 demo_extractor ''https://acme.test'' start))
     = \<lparr> asset_logos = [], asset_colors = [''#101010'', ''#101010'', ''#101010'', ''#101010''],
         asset_fonts = [] \<rparr>"
  by (simp add: scan_website_def stage1_def stage2_def stage3_def stage4_def stage5_def
      stage6_def start_def demo_extractor_def more_assets_def no_assets_def Let_def)

theorem extract_brand_merge_is_last_witness:
  "hd (trace (extract_brand demo_extractor ''https://acme.test'')) = BrandFetchQuery ''acme.test''
   \<and> last (trace (extract_brand demo_extractor ''https://acme.test'')) = BrandFetchMerge
   \<and> merged (extract_brand demo_extractor ''https://acme.test'')
       = Some \<lparr> asset_logos = [''acme.svg''], asset_colors = [''#ff6600'', ''#101010''],
                asset_fonts = [''Acme Sans''] \<rparr>"
proof -
  note merge = extract_brand_merge_is_last [of demo_extractor "''https://acme.test''"]
  from merge have m: "merged (extract_brand demo_extractor ''https://acme.test'')
       = Some (merge_official demo_extractor
                 (cluster_palette demo_extractor
                    (technical (scan_website demo_extractor ''https://acme.test''
                       (stage1 demo_extractor ''https://acme.test'' start))))
                 (brandfetch_lookup demo_extractor (domain_hint demo_extractor ''https://acme.test'')))"
    by (rule conjunct2 [THEN conjunct2])
  have "merged (extract_brand demo_extractor ''https://acme.test'')
       = Some \<lparr> asset_logos = [''acme.svg''], asset_colors = [''#ff6600'', ''#101010''],
                asset_fonts = [''Acme Sans''] \<rparr>"
    unfolding m technical_demo by (simp add: demo_extractor_def more_assets_def)
  moreover from merge
  have "hd (trace (extract_brand demo_extractor ''https://acme.test''))
          = BrandFetchQuery (domain_hint demo_extractor ''https://acme.test'')"
    by (rule conjunct1)
  then have "hd (trace (extract_brand demo_extractor ''https://acme.test'')) = BrandFetchQuery ''acme.test''"
    by (simp add: demo_extractor_def)
  moreover from merge obtain before
    where "trace (extract_brand demo_extractor ''https://acme.test'') = before @ [BrandFetchMerge]"
    by blast
  then have "last (trace (extract_brand demo_extractor ''https://acme.test'')) = BrandFetchMerge"
    by simp
  ultimately show ?thesis by simp
qed

text \<open>
  C7. In the pipeline as documented, the text that the AI call receives is the
  condensed text: the crawled pages' text with the boilerplate stripped, cut to 3500
  characters. Its length is at most 3500 whatever the size of the pages.
\<close>

theorem condensed_text_bounded:
  "condensed (extract_brand x site)
     = take 3500 (strip_boilerplate x (concat (map snd (pages (extract_brand x site)))))
   \<and> length (condensed (extract_brand x site)) \<le> 3500
   \<and> (\<forall>text. AiSynthesis text \<in> set (trace (extract_brand x site)) \<longrightarrow>
         text = condensed (extract_brand x site) \<and> length text \<le> 3500)"
proof -
  have c: "condensed (extract_brand x site)
     = take 3500 (strip_boilerplate x (concat (map snd (pages (extract_brand x site)))))"
    by (simp add: condensed_extract_brand pages_extract_brand condensation_budget_def)
  then have l: "length (condensed (extract_brand x site)) \<le> 3500"
    by simp
  have "\<forall>text. AiSynthesis text \<in> set (trace (extract_brand x site)) \<longrightarrow>
         text = condensed (extract_brand x site)"
    by (auto simp: trace_extract_brand)
  with c l show ?thesis by blast
qed

theorem condensed_text_bounded_witness:
  "length (concat (map snd (pages (extract_brand demo_extractor ''https://acme.test'')))) = 8000
   \<and> AiSynthesis (condensed (extract_brand demo_extractor ''https://acme.test''))
       \<in> set (trace (extract_brand demo_extractor ''https://acme.test''))
   \<and> length (condensed (extract_brand demo_extractor ''https://acme.test'')) = 3500
   \<and> length (condensed (extract_brand demo_extractor ''https://acme.test'')) \<le> 3500"
proof -
  have "length (concat (map snd (pages (extract_brand demo_extractor ''https://acme.test'')))) = 8000"
    by (simp add: pages_extract_brand crawled_pages_def crawl_targets_def demo_extractor_def)
  moreover have "AiSynthesis (condensed (extract_brand demo_extractor ''https://acme.test''))
       \<in> set (trace (extract_brand demo_extractor ''https://acme.test''))"
    by (simp add: trace_demo)
  ultimately show ?thesis
    using condensed_text_bounded [of demo_extractor "''https://acme.test''"] condensed_demo
    by blast
qed

section \<open>The whole system: nothing is stored on the server\<close>

lemma act_store: "server_store (act app a s) = server_store s"
  by (cases a) (simp_all add: act_def serve_def split: prod.splits)

lemma run_store: "server_store (run app actions s) = server_store s"
  by (induction actions arbitrary: s) (simp_all add: act_store)

lemma analyzeBrand_demo_backend:
  "fst (analyzeBrand demo_backend site n) = Inr (Some (JObj [(''name'', JStr ''Acme'')]))"
  by (simp add: analyzeBrand_def fetch_def demo_backend_def checked_body_def response_json_def
      split: prod.splits)

text \<open>
  C5. With the routes as documented, no sequence of client operations changes the
  server's store: an analysis through the React context, an analysis through the page
  script, a calendar request and a reset all leave it as it was. The analysed brand
  data is kept by the client: a successful analysis through the context stores the
  returned data in the context's \<open>brandData\<close>, and the page script stores the
  \<open>brand_data\<close> of an ok response in its variable \<open>brandData\<close>.
\<close>

theorem server_store_never_written:
  "server_store (run app actions s) = server_store s
   \<and> (\<forall>data. fst (analyzeBrand app site (wire s)) = Inr data \<longrightarrow>
         brandData (provider (act app (ContextAnalyze site) s)) = data
         \<and> server_store (act app (ContextAnalyze site) s) = server_store s)
   \<and> (\<forall>r kvs. app (page_request source_type props) = Inr r \<and> ok r
          \<and> json_body r = Inr (JObj kvs) \<longrightarrow>
         page_brandData (act app (PageAnalyze source_type props) s)
           = map_of (rev kvs) ''brand_data''
         \<and> server_store (act app (PageAnalyze source_type props) s) = server_store s)"
proof (intro conjI allI impI)
  show "server_store (run app actions s) = server_store s"
    by (rule run_store)
next
  fix data
  assume a: "fst (analyzeBrand app site (wire s)) = Inr data"
  have same: "analyzeBrand (\<lambda>req. app (analyzeBrand_request site)) site (wire s)
        = analyzeBrand app site (wire s)"
    by (simp add: analyzeBrand_def fetch_def)
  from a show "brandData (provider (act app (ContextAnalyze site) s)) = data"
    by (cases "analyzeBrand app site (wire s)")
      (simp add: act_def serve_def same BrandProvider_analyzeBrand_def)
  show "server_store (act app (ContextAnalyze site) s) = server_store s"
    by (rule act_store)
next
  fix r kvs
  assume a: "app (page_request source_type props) = Inr r \<and> ok r
          \<and> json_body r = Inr (JObj kvs)"
  then show "page_brandData (act app (PageAnalyze source_type props) s)
           = map_of (rev kvs) ''brand_data''"
    by (simp add: act_def serve_def page_analyzeBrand_def fetch_def response_json_def
        split: prod.splits)
  show "server_store (act app (PageAnalyze source_type props) s) = server_store s"
    by (rule act_store)
qed

theorem server_store_never_written_witness:
  "server_store (run demo_backend
      [ContextAnalyze ''https://acme.test'', Calendar (Some (JStr ''casual'')),
       PageAnalyze ''url'' [(''url'', Some (JStr ''https://acme.test''))], ContextClear]
      demo_system) = [''sessions'']
   \<and> brandData (provider (act demo_backend (ContextAnalyze ''https://acme.test'') demo_system))
       = Some (JObj [(''name'', JStr ''Acme'')])
   \<and> page_brandData (act demo_backend
         (PageAnalyze ''url'' [(''url'', Some (JStr ''https://acme.test''))]) demo_system)
       = Some (JObj [(''name'', JStr ''Acme'')])"
  using server_store_never_written
    [of demo_backend
        "[ContextAnalyze ''https://acme.test'', Calendar (Some (JStr ''casual'')),
          PageAnalyze ''url'' [(''url'', Some (JStr ''https://acme.test''))], ContextClear]"
        demo_system "''https://acme.test''" "''url''"
        "[(''url'', Some (JStr ''https://acme.test''))]"]
    analyzeBrand_demo_backend [of "''https://acme.test''" "wire demo_system"]
  by (simp add: demo_system_def demo_backend_def)

end
